theory Spec2Isabelle
  imports Complex_Main "HOL-Library.AList"
begin

section \<open>The confidence-report script for the MaxConfidence/SPSA attack\<close>

text \<open>
  This theory embeds \<^verbatim>\<open>scripts/make_confidence_report_spsa.py\<close>: the function
  \<^verbatim>\<open>make_confidence_report_spsa\<close> and the entry point \<^verbatim>\<open>main\<close>.

  Conventions of the embedding:
  \<^item> Python values that the script only stores or forwards are values of \<open>pyval\<close>.
  \<^item> Python floats are idealised as real numbers: rounding, overflow, infinities and NaN
    are not modelled.
  \<^item> A \<^verbatim>\<open>dict\<close> is an association list; \<open>AList.update\<close> overwrites the value of a
    key that is present and appends a key that is absent, as item assignment does.
  \<^item> Every exception is a value of \<open>error\<close>; a computation returns \<open>error + 'a\<close>.
  \<^item> Calls into the library (loading, dataset construction, batched evaluation, saving)
    are functions of an environment record. Each such call is appended to a log, so
    that the order of the calls and their arguments can be stated.
  \<^item> \<^verbatim>\<open>assert\<close> statements are active (the interpreter is not run with \<^verbatim>\<open>-O\<close>).
  \<^item> Seeding, the logging level, the session object, timing and printing have no
    influence on the values below and are left out.
\<close>

subsection \<open>Values and errors\<close>

datatype pyval = PNone | PBool bool | PInt int | PFloat real | PStr string

datatype error =
    AssertionError
  | NotImplementedError string
  | ValueError "string list"
  | TypeError
  | KeyError string
  | NameError string
  | LibraryError string

type_synonym 'a result = "error + 'a"

definition and_then :: "'a result \<Rightarrow> ('a \<Rightarrow> 'b result) \<Rightarrow> 'b result" where
  "and_then r f = (case r of Inl e \<Rightarrow> Inl e | Inr v \<Rightarrow> f v)"

definition py_assert :: "bool \<Rightarrow> unit result" where
  "py_assert b = (if b then Inr () else Inl AssertionError)"

text \<open>Numbers in arithmetic: \<^verbatim>\<open>bool\<close> is a subtype of \<^verbatim>\<open>int\<close>; \<^verbatim>\<open>None\<close> and strings
  make the float arithmetic of the script raise \<^verbatim>\<open>TypeError\<close>.\<close>

fun as_number :: "pyval \<Rightarrow> real result" where
  "as_number (PBool b) = Inr (if b then 1 else 0)"
| "as_number (PInt i) = Inr (real_of_int i)"
| "as_number (PFloat r) = Inr r"
| "as_number PNone = Inl TypeError"
| "as_number (PStr s) = Inl TypeError"

subsection \<open>Strings\<close>

text \<open>\<^verbatim>\<open>s.endswith(suffix)\<close>.\<close>

definition endswith :: "string \<Rightarrow> string \<Rightarrow> bool" where
  "endswith s suffix =
     (length suffix \<le> length s \<and> drop (length s - length suffix) s = suffix)"

text \<open>\<^verbatim>\<open>sub in s\<close> for strings: \<open>sub\<close> occurs in \<open>s\<close> as a contiguous substring.\<close>

fun str_contains :: "string \<Rightarrow> string \<Rightarrow> bool" where
  "str_contains sub [] = (sub = [])"
| "str_contains sub (c # cs) = (take (length sub) (c # cs) = sub \<or> str_contains sub cs)"

subsection \<open>Dictionaries\<close>

type_synonym 'v dict = "(string \<times> 'v) list"

text \<open>\<^verbatim>\<open>d[key]\<close> as an expression.\<close>

definition getitem :: "'v dict \<Rightarrow> string \<Rightarrow> 'v result" where
  "getitem d key = (case map_of d key of None \<Rightarrow> Inl (KeyError key) | Some v \<Rightarrow> Inr v)"

subsection \<open>Objects of the library that the script handles\<close>

text \<open>\<open>cls\<close> is the text \<^verbatim>\<open>str(factory.cls)\<close>, the only thing the script reads of the
  class.\<close>

record factory =
  cls :: string
  kwargs :: "pyval dict"

text \<open>\<open>get_params\<close> is the list \<^verbatim>\<open>model.get_params()\<close>, by the names of the variables.\<close>

record model =
  get_params :: "string list"
  dataset_factory :: factory

record dataset =
  ds_kwargs :: "pyval dict"

type_synonym ndarray = "real list list"

datatype attack = SPSA model | MaxConfidence model attack

record mc_params =
  eps :: real
  mc_nb_iter :: pyval
  clip_min :: real
  clip_max :: pyval

record report_entry =
  correctness :: "bool list"
  confidence :: "real list"

type_synonym report = "report_entry dict"

subsection \<open>The library and the log of calls into it\<close>

record env =
  load :: "string \<Rightarrow> model result"
  construct :: "factory \<Rightarrow> dataset result"
  get_set :: "dataset \<Rightarrow> pyval \<Rightarrow> (ndarray \<times> ndarray) result"
  correctness_and_confidence ::
    "model \<Rightarrow> ndarray \<Rightarrow> ndarray \<Rightarrow> pyval \<Rightarrow> string list \<Rightarrow> attack option \<Rightarrow> mc_params option
       \<Rightarrow> (bool list \<times> real list) result"
  devices :: "string list"
  save :: "string \<Rightarrow> report \<Rightarrow> unit result"

datatype call =
    Call_load string
  | Call_factory factory
  | Call_get_set dataset pyval
  | Call_correctness_and_confidence pyval "attack option" "mc_params option"
  | Call_save string report

type_synonym 'a run = "call list \<Rightarrow> 'a result \<times> call list"

definition returns :: "'a \<Rightarrow> 'a run" where
  "returns v = (\<lambda>cs. (Inr v, cs))"

definition raise :: "error \<Rightarrow> 'a run" where
  "raise e = (\<lambda>cs. (Inl e, cs))"

definition pure_step :: "'a result \<Rightarrow> 'a run" where
  "pure_step r = (\<lambda>cs. (r, cs))"

definition library_call :: "call \<Rightarrow> 'a result \<Rightarrow> 'a run" where
  "library_call c r = (\<lambda>cs. (r, cs @ [c]))"

definition run_bind :: "'a run \<Rightarrow> ('a \<Rightarrow> 'b run) \<Rightarrow> 'b run" where
  "run_bind m f =
     (\<lambda>cs. case m cs of (Inl e, cs') \<Rightarrow> (Inl e, cs') | (Inr v, cs') \<Rightarrow> f v cs')"

subsection \<open>Parameters\<close>

text \<open>The eight keyword parameters of \<^verbatim>\<open>make_confidence_report_spsa\<close>, which are also
  the eight command-line flags and the eight constants imported from
  \<^verbatim>\<open>cleverhans.confidence_report\<close> (\<^verbatim>\<open>TRAIN_START\<close>, ..., \<^verbatim>\<open>REPORT_PATH\<close>). The constants
  are not part of the script: they are a parameter of the embedding.\<close>

record config =
  train_start :: pyval
  train_end :: pyval
  test_start :: pyval
  test_end :: pyval
  batch_size :: pyval
  which_set :: pyval
  report_path :: "string option"
  nb_iter :: pyval

record args = config +
  filepath :: string

subsection \<open>make\_confidence\_report\_spsa\<close>

text \<open>Lines 91 to 93: the report path.\<close>

definition resolve_report_path :: "string \<Rightarrow> string option \<Rightarrow> string result" where
  "resolve_report_path fp rp =
     (case rp of
        None \<Rightarrow>
          if endswith fp ''.joblib''
          then Inr (take (length fp - length ''.joblib'') fp @ ''_spsa_report.joblib'')
          else Inl AssertionError
      | Some p \<Rightarrow> Inr p)"

text \<open>Lines 99 to 102: the four item assignments on \<^verbatim>\<open>factory.kwargs\<close>.\<close>

definition set_bounds :: "factory \<Rightarrow> ('a args_scheme) \<Rightarrow> factory" where
  "set_bounds f a =
     f\<lparr>kwargs :=
         AList.update ''test_end'' (test_end a)
           (AList.update ''test_start'' (test_start a)
             (AList.update ''train_end'' (train_end a)
               (AList.update ''train_start'' (train_start a) (kwargs f))))\<rparr>"

text \<open>Lines 83 to 103. The factory is an attribute of the model, so the model that the
  later calls receive carries the updated factory.\<close>

definition load_and_build :: "env \<Rightarrow> args \<Rightarrow> (string \<times> model \<times> dataset) run" where
  "load_and_build e a =
     run_bind (pure_step (resolve_report_path (filepath a) (report_path a))) (\<lambda>rp.
     run_bind (library_call (Call_load (filepath a)) (load e (filepath a))) (\<lambda>m.
     run_bind (pure_step (py_assert (0 < length (get_params m)))) (\<lambda>_.
       let f = set_bounds (dataset_factory m) a;
           m' = m\<lparr>dataset_factory := f\<rparr>
       in run_bind (library_call (Call_factory f) (construct e f)) (\<lambda>d.
          returns (rp, m', d)))))"

text \<open>Lines 107 and 108.\<close>

definition value_range_of :: "pyval \<Rightarrow> pyval \<Rightarrow> real result" where
  "value_range_of max_val center =
     and_then (as_number center) (\<lambda>c.
     and_then (as_number max_val) (\<lambda>m. Inr (m * (1 + c))))"

definition min_value_of :: "pyval \<Rightarrow> pyval \<Rightarrow> real result" where
  "min_value_of center max_val =
     and_then (as_number center) (\<lambda>c.
     and_then (as_number max_val) (\<lambda>m. Inr (0 - c * m)))"

text \<open>Lines 110 to 115.\<close>

definition base_eps_of :: "string \<Rightarrow> real result" where
  "base_eps_of c =
     (if str_contains ''CIFAR'' c then Inr (8 / 255)
      else if str_contains ''MNIST'' c then Inr (3 / 10)
      else Inl (NotImplementedError c))"

text \<open>Lines 105 to 120.\<close>

definition attack_configuration :: "factory \<Rightarrow> dataset \<Rightarrow> pyval \<Rightarrow> mc_params result" where
  "attack_configuration f d n =
     and_then (getitem (ds_kwargs d) ''center'') (\<lambda>center.
     and_then (getitem (ds_kwargs d) ''max_val'') (\<lambda>max_val.
     and_then (value_range_of max_val center) (\<lambda>value_range.
     and_then (min_value_of center max_val) (\<lambda>min_value.
     and_then (base_eps_of (cls f)) (\<lambda>base_eps.
       Inr \<lparr>eps = base_eps * value_range, mc_nb_iter = n,
            clip_min = min_value, clip_max = max_val\<rparr>)))))"

text \<open>Lines 133 to 151: one job is a name, an attack, its parameters and a batch size.\<close>

type_synonym job = "string \<times> attack option \<times> mc_params option \<times> pyval option"

definition run_job ::
  "env \<Rightarrow> pyval \<Rightarrow> model \<Rightarrow> ndarray \<Rightarrow> ndarray \<Rightarrow> job \<Rightarrow> report_entry run" where
  "run_job e bs m x_data y_data j =
     (case j of (name, att, attack_params, job_batch_size) \<Rightarrow>
        let jbs = (case job_batch_size of None \<Rightarrow> bs | Some b \<Rightarrow> b)
        in run_bind
             (library_call (Call_correctness_and_confidence jbs att attack_params)
                (correctness_and_confidence e m x_data y_data jbs (devices e) att attack_params))
             (\<lambda>(corr, conf). returns \<lparr>correctness = corr, confidence = conf\<rparr>))"

fun run_jobs ::
  "env \<Rightarrow> pyval \<Rightarrow> model \<Rightarrow> ndarray \<Rightarrow> ndarray \<Rightarrow> job list \<Rightarrow> report \<Rightarrow> report run" where
  "run_jobs e bs m x_data y_data [] rep cs = (Inr rep, cs)"
| "run_jobs e bs m x_data y_data (j # js) rep cs =
     (case run_job e bs m x_data y_data j cs of
        (Inl err, cs') \<Rightarrow> (Inl err, cs')
      | (Inr entry, cs') \<Rightarrow>
          run_jobs e bs m x_data y_data js (AList.update (fst j) entry rep) cs')"

text \<open>Lines 123 to 151.\<close>

definition evaluate_jobs :: "env \<Rightarrow> args \<Rightarrow> model \<Rightarrow> dataset \<Rightarrow> mc_params \<Rightarrow> report run" where
  "evaluate_jobs e a m d mcp =
     run_bind (library_call (Call_get_set d (which_set a)) (get_set e d (which_set a)))
       (\<lambda>(x_data, y_data).
          let spsa = SPSA m;
              mc = MaxConfidence m spsa;
              jobs = [(''clean'', None, None, None), (''mc'', Some mc, Some mcp, None)]
          in run_jobs e (batch_size a) m x_data y_data jobs [])"

text \<open>The names bound at module level when the function runs: the imports of lines 26 to
  51, \<^verbatim>\<open>FLAGS\<close> and the two functions. No builtin is called \<^verbatim>\<open>save\<close>.\<close>

definition module_globals :: "string list" where
  "module_globals =
     [''absolute_import'', ''division'', ''print_function'', ''unicode_literals'',
      ''logging'', ''time'', ''tf'', ''flags'',
      ''MaxConfidence'', ''SPSA'', ''correctness_and_confidence'', ''load'',
      ''set_log_level'', ''silence'', ''devices'', ''print_stats'',
      ''make_confidence_report'', ''BATCH_SIZE'', ''TRAIN_START'', ''TRAIN_END'',
      ''TEST_START'', ''TEST_END'', ''WHICH_SET'', ''NB_ITER'', ''REPORT_PATH'',
      ''FLAGS'', ''make_confidence_report_spsa'', ''main'']"

text \<open>Line 154: the name \<^verbatim>\<open>save\<close> is looked up, then called.\<close>

definition call_save :: "env \<Rightarrow> string \<Rightarrow> report \<Rightarrow> unit run" where
  "call_save e rp rep =
     (if ''save'' \<in> set module_globals
      then library_call (Call_save rp rep) (save e rp rep)
      else raise (NameError ''save''))"

definition make_confidence_report_spsa :: "env \<Rightarrow> args \<Rightarrow> unit run" where
  "make_confidence_report_spsa e a =
     run_bind (load_and_build e a) (\<lambda>(rp, m, d).
     run_bind (pure_step (attack_configuration (dataset_factory m) d (nb_iter a))) (\<lambda>mcp.
     run_bind (evaluate_jobs e a m d mcp) (\<lambda>rep.
     call_save e rp rep)))"

subsection \<open>main\<close>

text \<open>The call of lines 164 to 168 passes six keywords; the parameters it does not pass
  take the defaults of the signature, the imported constants.\<close>

definition main_call_args :: "config \<Rightarrow> config \<Rightarrow> string \<Rightarrow> args" where
  "main_call_args defaults FLAGS fp =
     \<lparr>train_start = train_start defaults,
      train_end = train_end defaults,
      test_start = test_start FLAGS,
      test_end = test_end FLAGS,
      batch_size = batch_size FLAGS,
      which_set = which_set FLAGS,
      report_path = report_path FLAGS,
      nb_iter = nb_iter FLAGS,
      filepath = fp\<rparr>"

text \<open>\<open>argv\<close> is \<^verbatim>\<open>None\<close> (the default of the parameter) or a list of strings.\<close>

definition main :: "env \<Rightarrow> config \<Rightarrow> config \<Rightarrow> string list option \<Rightarrow> unit run" where
  "main e defaults FLAGS argv =
     (case argv of
        None \<Rightarrow> raise TypeError
      | Some [name_of_script, fp] \<Rightarrow>
          make_confidence_report_spsa e (main_call_args defaults FLAGS fp)
      | Some av \<Rightarrow> raise (ValueError av))"

subsection \<open>Reading the log\<close>

fun call_name :: "call \<Rightarrow> string" where
  "call_name (Call_load p) = ''load''"
| "call_name (Call_factory f) = ''factory''"
| "call_name (Call_get_set d w) = ''get_set''"
| "call_name (Call_correctness_and_confidence b att ps) = ''correctness_and_confidence''"
| "call_name (Call_save p r) = ''save''"

subsection \<open>The contract of the evaluation routine\<close>

text \<open>Modelled from the spec: \<^verbatim>\<open>correctness_and_confidence\<close> is defined in
  \<^verbatim>\<open>cleverhans.evaluation\<close>, which is not part of the script. The data model of the spec says
  that it yields a correctness array and a confidence array with one entry per evaluated
  example.\<close>

definition evaluation_contract :: "env \<Rightarrow> bool" where
  "evaluation_contract e =
     (\<forall>m x y b dv att ps corr conf.
        correctness_and_confidence e m x y b dv att ps = Inr (corr, conf) \<longrightarrow>
        length corr = length x \<and> length conf = length x)"

subsection \<open>A concrete library and concrete inputs\<close>

text \<open>A saved model whose dataset factory was stored with the bounds 10 and 20, a library
  that loads it from every path, a dataset of three examples, and the constants of
  \<^verbatim>\<open>cleverhans.confidence_report\<close> as the library defines them. \<open>example_flags\<close> are
  the flags of the command line
  \<^verbatim>\<open>--train_start=5 --train_end=50 --test_start=1 --test_end=3 model.joblib\<close>;
  \<open>example_args\<close> are the arguments that \<open>main\<close> passes for them, and
  \<open>example_bounded_factory\<close> and \<open>example_dataset\<close> are what the run then builds.\<close>

definition mnist_cls :: string where
  "mnist_cls = ''<class 'cleverhans.dataset.MNIST'>''"

definition cifar_cls :: string where
  "cifar_cls = ''<class 'cleverhans.dataset.CIFAR10'>''"

definition svhn_cls :: string where
  "svhn_cls = ''<class 'cleverhans.dataset.SVHN'>''"

definition mixed_cls :: string where
  "mixed_cls = ''<class 'datasets.MNIST_and_CIFAR'>''"

definition plain_meta :: "pyval dict" where
  "plain_meta = [(''center'', PBool False), (''max_val'', PFloat 1)]"

definition centered_meta :: "pyval dict" where
  "centered_meta = [(''center'', PBool True), (''max_val'', PInt 255)]"

definition example_factory :: "string \<Rightarrow> pyval dict \<Rightarrow> factory" where
  "example_factory c meta =
     \<lparr>cls = c,
      kwargs = [(''train_start'', PInt 10), (''train_end'', PInt 20),
                (''test_start'', PInt 10), (''test_end'', PInt 20)] @ meta\<rparr>"

definition example_model :: "string \<Rightarrow> pyval dict \<Rightarrow> model" where
  "example_model c meta =
     \<lparr>get_params = [''W'', ''b''], dataset_factory = example_factory c meta\<rparr>"

definition example_env :: "string \<Rightarrow> pyval dict \<Rightarrow> env" where
  "example_env c meta =
     \<lparr>load = (\<lambda>p. Inr (example_model c meta)),
      construct = (\<lambda>f. Inr \<lparr>ds_kwargs = kwargs f\<rparr>),
      get_set = (\<lambda>d w. Inr ([[0], [1], [0]], [[1, 0], [0, 1], [1, 0]])),
      correctness_and_confidence =
        (\<lambda>m x y b dv att ps. Inr (map (\<lambda>_. att = None) x, map (\<lambda>_. 1 / 2) x)),
      devices = [''/gpu:0''],
      save = (\<lambda>p r. Inr ())\<rparr>"

definition example_defaults :: config where
  "example_defaults =
     \<lparr>train_start = PInt 0, train_end = PInt 60000, test_start = PInt 0,
      test_end = PInt 10000, batch_size = PInt 256, which_set = PStr ''test'',
      report_path = None, nb_iter = PInt 40\<rparr>"

definition example_flags :: config where
  "example_flags =
     \<lparr>train_start = PInt 5, train_end = PInt 50, test_start = PInt 1,
      test_end = PInt 3, batch_size = PInt 256, which_set = PStr ''test'',
      report_path = None, nb_iter = PInt 40\<rparr>"

definition example_args :: args where
  "example_args =
     \<lparr>train_start = PInt 0, train_end = PInt 60000, test_start = PInt 1,
      test_end = PInt 3, batch_size = PInt 256, which_set = PStr ''test'',
      report_path = None, nb_iter = PInt 40, filepath = ''model.joblib''\<rparr>"

definition example_bounded_factory :: "string \<Rightarrow> pyval dict \<Rightarrow> factory" where
  "example_bounded_factory c meta =
     \<lparr>cls = c,
      kwargs = [(''train_start'', PInt 0), (''train_end'', PInt 60000),
                (''test_start'', PInt 1), (''test_end'', PInt 3)] @ meta\<rparr>"

definition example_bounded_model :: "string \<Rightarrow> pyval dict \<Rightarrow> model" where
  "example_bounded_model c meta =
     \<lparr>get_params = [''W'', ''b''], dataset_factory = example_bounded_factory c meta\<rparr>"

definition example_dataset :: "pyval dict \<Rightarrow> dataset" where
  "example_dataset meta =
     \<lparr>ds_kwargs = [(''train_start'', PInt 0), (''train_end'', PInt 60000),
                   (''test_start'', PInt 1), (''test_end'', PInt 3)] @ meta\<rparr>"

definition example_mc_params :: mc_params where
  "example_mc_params =
     \<lparr>eps = 3 / 10, mc_nb_iter = PInt 40, clip_min = 0, clip_max = PFloat 1\<rparr>"

section \<open>Properties\<close>

subsection \<open>Strings, sequencing and the phases of the function\<close>

lemma endswith_iff: "endswith s suf \<longleftrightarrow> (\<exists>stem. s = stem @ suf)"
proof
  assume "endswith s suf"
  then have "take (length s - length suf) s @ suf = s"
    by (metis append_take_drop_id endswith_def)
  then show "\<exists>stem. s = stem @ suf" by metis
next
  assume "\<exists>stem. s = stem @ suf"
  then show "endswith s suf" by (auto simp: endswith_def)
qed

lemma str_contains_iff: "str_contains sub s \<longleftrightarrow> (\<exists>pre post. s = pre @ sub @ post)"
proof (induction s)
  case Nil
  then show ?case by auto
next
  case (Cons c cs)
  show ?case
  proof
    assume "str_contains sub (c # cs)"
    then consider "take (length sub) (c # cs) = sub" | "str_contains sub cs" by auto
    then show "\<exists>pre post. c # cs = pre @ sub @ post"
    proof cases
      case 1
      then have "c # cs = [] @ sub @ drop (length sub) (c # cs)"
        by (metis append_Nil append_take_drop_id)
      then show ?thesis by blast
    next
      case 2
      then obtain pre post where "cs = pre @ sub @ post" using Cons.IH by blast
      then have "c # cs = (c # pre) @ sub @ post" by simp
      then show ?thesis by blast
    qed
  next
    assume "\<exists>pre post. c # cs = pre @ sub @ post"
    then obtain pre post where eq: "c # cs = pre @ sub @ post" by blast
    show "str_contains sub (c # cs)"
    proof (cases pre)
      case Nil
      then have "take (length sub) (c # cs) = sub" using eq by simp
      then show ?thesis by simp
    next
      case (Cons p ps)
      then have "cs = ps @ sub @ post" using eq by simp
      then show ?thesis using Cons.IH by auto
    qed
  qed
qed

lemma run_bind_Inr: "m cs = (Inr v, cs') \<Longrightarrow> run_bind m f cs = f v cs'"
  by (simp add: run_bind_def)

lemma run_bind_Inl: "m cs = (Inl e, cs') \<Longrightarrow> run_bind m f cs = (Inl e, cs')"
  by (simp add: run_bind_def)

lemma load_and_build_assert:
  "resolve_report_path (filepath a) (report_path a) = Inl err \<Longrightarrow>
   load_and_build e a cs = (Inl err, cs)"
  by (simp add: load_and_build_def run_bind_def pure_step_def)

lemma load_and_build_path:
  assumes "load_and_build e a cs = (Inr (rp, m, d), cs')"
  shows "resolve_report_path (filepath a) (report_path a) = Inr rp"
  using assms
  by (auto simp: load_and_build_def run_bind_def pure_step_def library_call_def returns_def
        Let_def split: sum.splits prod.splits)

lemma run_job_eq:
  "run_job e bs m x y (name, att, ps, None) cs =
     (map_sum id (\<lambda>(corr, conf). \<lparr>correctness = corr, confidence = conf\<rparr>)
        (correctness_and_confidence e m x y bs (devices e) att ps),
      cs @ [Call_correctness_and_confidence bs att ps])"
  by (simp add: run_job_def run_bind_def library_call_def returns_def split: sum.splits)

lemma evaluate_jobs_eq:
  assumes "get_set e d (which_set a) = Inr (x, y)"
  shows "evaluate_jobs e a m d mcp cs =
     (let c1 = Call_correctness_and_confidence (batch_size a) None None;
          c2 = Call_correctness_and_confidence (batch_size a)
                 (Some (MaxConfidence m (SPSA m))) (Some mcp);
          g = Call_get_set d (which_set a)
      in case correctness_and_confidence e m x y (batch_size a) (devices e) None None of
           Inl err \<Rightarrow> (Inl err, cs @ [g, c1])
         | Inr (co1, cf1) \<Rightarrow>
             (case correctness_and_confidence e m x y (batch_size a) (devices e)
                     (Some (MaxConfidence m (SPSA m))) (Some mcp) of
                Inl err \<Rightarrow> (Inl err, cs @ [g, c1, c2])
              | Inr (co2, cf2) \<Rightarrow>
                  (Inr [(''clean'', \<lparr>correctness = co1, confidence = cf1\<rparr>),
                        (''mc'', \<lparr>correctness = co2, confidence = cf2\<rparr>)],
                   cs @ [g, c1, c2])))"
  using assms
  by (simp add: evaluate_jobs_def run_bind_def library_call_def run_job_eq Let_def
      split: sum.splits prod.splits)

lemma call_save_eq: "call_save e rp rep cs = (Inl (NameError ''save''), cs)"
  by (simp add: call_save_def module_globals_def raise_def)

lemma make_report_after_build:
  assumes "load_and_build e a cs = (Inr (rp, m, d), cs1)"
  shows "make_confidence_report_spsa e a cs =
     (case attack_configuration (dataset_factory m) d (nb_iter a) of
        Inl err \<Rightarrow> (Inl err, cs1)
      | Inr mcp \<Rightarrow>
          (case evaluate_jobs e a m d mcp cs1 of
             (Inl err, cs2) \<Rightarrow> (Inl err, cs2)
           | (Inr rep, cs2) \<Rightarrow> call_save e rp rep cs2))"
  using assms
  by (simp add: make_confidence_report_spsa_def run_bind_def pure_step_def
      split: sum.splits prod.splits)

lemma never_returns: "fst (make_confidence_report_spsa e a cs) \<noteq> Inr u"
  by (auto simp: make_confidence_report_spsa_def run_bind_def call_save_def module_globals_def
        raise_def split: sum.splits prod.splits)

lemma load_and_build_log:
  "\<exists>ext. snd (load_and_build e a cs) = cs @ ext \<and> (\<forall>c \<in> set ext. call_name c \<noteq> ''save'')"
  by (auto simp: load_and_build_def run_bind_def pure_step_def library_call_def returns_def
        Let_def split: sum.splits prod.splits)

lemma evaluate_jobs_log:
  "\<exists>ext. snd (evaluate_jobs e a m d mcp cs) = cs @ ext \<and> (\<forall>c \<in> set ext. call_name c \<noteq> ''save'')"
proof (cases "get_set e d (which_set a)")
  case (Inl err)
  then show ?thesis
    by (simp add: evaluate_jobs_def run_bind_def library_call_def)
next
  case (Inr xy)
  then obtain x y where "get_set e d (which_set a) = Inr (x, y)" by (cases xy) auto
  then show ?thesis
    by (auto simp: evaluate_jobs_eq Let_def split: sum.splits prod.splits)
qed

lemma save_never_called:
  "\<exists>ext. snd (make_confidence_report_spsa e a cs) = cs @ ext
         \<and> (\<forall>c \<in> set ext. call_name c \<noteq> ''save'')"
proof (cases "load_and_build e a cs")
  case (Pair r cs1)
  obtain ext1 where e1: "cs1 = cs @ ext1" "\<forall>c \<in> set ext1. call_name c \<noteq> ''save''"
    using load_and_build_log [of e a cs] Pair by auto
  show ?thesis
  proof (cases r)
    case (Inl err)
    with Pair e1 show ?thesis
      by (simp add: make_confidence_report_spsa_def run_bind_def)
  next
    case (Inr t)
    then obtain rp m d where t: "r = Inr (rp, m, d)" by (cases t) auto
    note run = make_report_after_build [OF Pair [unfolded t]]
    show ?thesis
    proof (cases "attack_configuration (dataset_factory m) d (nb_iter a)")
      case (Inl err)
      with run e1 show ?thesis by simp
    next
      case (Inr mcp)
      obtain ext2 where e2: "snd (evaluate_jobs e a m d mcp cs1) = cs1 @ ext2"
        "\<forall>c \<in> set ext2. call_name c \<noteq> ''save''"
        using evaluate_jobs_log by blast
      have "snd (make_confidence_report_spsa e a cs) = snd (evaluate_jobs e a m d mcp cs1)"
        using run Inr by (simp add: call_save_eq split: sum.splits prod.splits)
      then have "snd (make_confidence_report_spsa e a cs) = cs @ (ext1 @ ext2)"
        using e1 e2 by simp
      moreover have "\<forall>c \<in> set (ext1 @ ext2). call_name c \<noteq> ''save''"
        using e1 e2 by auto
      ultimately show ?thesis by blast
    qed
  qed
qed

lemma min_value_of_defined:
  "value_range_of max_val center = Inr vr \<Longrightarrow> \<exists>mn. min_value_of center max_val = Inr mn"
  by (auto simp: value_range_of_def min_value_of_def and_then_def split: sum.splits)

lemma set_bounds_map_of:
  "map_of (kwargs (set_bounds f a)) =
     (map_of (kwargs f))(''train_start'' \<mapsto> train_start a, ''train_end'' \<mapsto> train_end a,
        ''test_start'' \<mapsto> test_start a, ''test_end'' \<mapsto> test_end a)"
  by (simp add: set_bounds_def update_conv')

subsection \<open>The concrete library\<close>

lemmas example_defs =
  example_env_def example_model_def example_factory_def example_args_def
  example_defaults_def example_flags_def example_dataset_def example_mc_params_def
  example_bounded_factory_def example_bounded_model_def

lemma example_build:
  "load_and_build (example_env c meta) example_args [] =
     (Inr (''model_spsa_report.joblib'', example_bounded_model c meta, example_dataset meta),
      [Call_load ''model.joblib'', Call_factory (example_bounded_factory c meta)])"
  by (simp add: load_and_build_def run_bind_def pure_step_def library_call_def returns_def
      py_assert_def resolve_report_path_def endswith_def set_bounds_def example_defs Let_def)

lemma example_get_set:
  "get_set (example_env c meta) d w = Inr ([[0], [1], [0]], [[1, 0], [0, 1], [1, 0]])"
  by (simp add: example_env_def)

lemma example_evaluation:
  "correctness_and_confidence (example_env c meta) m x y b dv att ps
     = Inr (map (\<lambda>_. att = None) x, map (\<lambda>_. 1 / 2) x)"
  by (simp add: example_env_def)

lemma example_contract: "evaluation_contract (example_env c meta)"
  by (auto simp: evaluation_contract_def example_evaluation)

lemma example_metadata:
  "getitem (ds_kwargs (example_dataset plain_meta)) ''center'' = Inr (PBool False)"
  "getitem (ds_kwargs (example_dataset plain_meta)) ''max_val'' = Inr (PFloat 1)"
  "getitem (ds_kwargs (example_dataset centered_meta)) ''center'' = Inr (PBool True)"
  "getitem (ds_kwargs (example_dataset centered_meta)) ''max_val'' = Inr (PInt 255)"
  by (simp_all add: getitem_def example_dataset_def plain_meta_def centered_meta_def)

lemma example_classes:
  "str_contains ''MNIST'' mnist_cls" "\<not> str_contains ''CIFAR'' mnist_cls"
  "str_contains ''CIFAR'' cifar_cls"
  "\<not> str_contains ''MNIST'' svhn_cls" "\<not> str_contains ''CIFAR'' svhn_cls"
  "str_contains ''MNIST'' mixed_cls" "str_contains ''CIFAR'' mixed_cls"
  by (simp_all add: mnist_cls_def cifar_cls_def svhn_cls_def mixed_cls_def)

lemma example_factory_of_model:
  "dataset_factory (example_bounded_model c meta) = example_bounded_factory c meta"
  "cls (example_bounded_factory c meta) = c"
  by (simp_all add: example_bounded_model_def example_bounded_factory_def)

lemma example_arguments:
  "nb_iter example_args = PInt 40" "which_set example_args = PStr ''test''"
  "batch_size example_args = PInt 256" "report_path example_args = None"
  "filepath example_args = ''model.joblib''"
  by (simp_all add: example_args_def)

lemma example_configuration:
  "attack_configuration (example_bounded_factory mnist_cls plain_meta)
     (example_dataset plain_meta) (PInt 40) = Inr example_mc_params"
  by (simp add: attack_configuration_def and_then_def example_metadata value_range_of_def
      min_value_of_def base_eps_of_def example_classes example_factory_of_model
      example_mc_params_def)

lemma example_run:
  "make_confidence_report_spsa (example_env mnist_cls plain_meta) example_args [] =
     (Inl (NameError ''save''),
      [Call_load ''model.joblib'', Call_factory (example_bounded_factory mnist_cls plain_meta),
       Call_get_set (example_dataset plain_meta) (PStr ''test''),
       Call_correctness_and_confidence (PInt 256) None None,
       Call_correctness_and_confidence (PInt 256)
         (Some (MaxConfidence (example_bounded_model mnist_cls plain_meta)
                  (SPSA (example_bounded_model mnist_cls plain_meta))))
         (Some example_mc_params)])"
  by (simp add: make_report_after_build [OF example_build] example_factory_of_model
      example_arguments example_configuration evaluate_jobs_eq [OF example_get_set]
      example_evaluation call_save_eq Let_def)

subsection \<open>The claims\<close>

text \<open>
  Claim C1. After both evaluation jobs complete, the function is to serialise the report
  to the resolved report path through the library's save routine. The script imports only
  \<^verbatim>\<open>load\<close> from \<^verbatim>\<open>cleverhans.serial\<close>, so the name \<^verbatim>\<open>save\<close> of line 154 is unbound. On
  the example model, with every library call succeeding, the run loads the model, builds
  the dataset, reads the set and evaluates both jobs; it then ends in
  \<^verbatim>\<open>NameError\<close>, and no call of the save routine is logged.
\<close>

theorem report_is_not_saved:
  "fst (make_confidence_report_spsa (example_env mnist_cls plain_meta) example_args [])
     = Inl (NameError ''save'')
   \<and> map call_name
        (snd (make_confidence_report_spsa (example_env mnist_cls plain_meta) example_args []))
       = [''load'', ''factory'', ''get_set'', ''correctness_and_confidence'',
          ''correctness_and_confidence'']"
  by (simp add: example_run)

text \<open>
  Claim C2. Each of the eight flags is to reach the corresponding parameter of
  \<^verbatim>\<open>make_confidence_report_spsa\<close>. The call in \<open>main\<close> passes six of them and leaves out
  \<^verbatim>\<open>train_start\<close> and \<^verbatim>\<open>train_end\<close>. With the flags set to 5 and 50, the parameters are
  the defaults 0 and 60000, and the dataset factory is called with these defaults, while
  the flags \<^verbatim>\<open>test_start\<close> and \<^verbatim>\<open>test_end\<close> (1 and 3) do arrive.
\<close>

theorem main_ignores_train_flags:
  "train_start example_flags = PInt 5
   \<and> train_end example_flags = PInt 50
   \<and> train_start (main_call_args example_defaults example_flags ''model.joblib'') = PInt 0
   \<and> train_end (main_call_args example_defaults example_flags ''model.joblib'') = PInt 60000
   \<and> snd (main (example_env mnist_cls plain_meta) example_defaults example_flags
             (Some [''make_confidence_report_spsa.py'', ''model.joblib'']) []) ! 1
       = Call_factory
           \<lparr>cls = mnist_cls,
            kwargs = [(''train_start'', PInt 0), (''train_end'', PInt 60000),
                      (''test_start'', PInt 1), (''test_end'', PInt 3),
                      (''center'', PBool False), (''max_val'', PFloat 1)]\<rparr>"
proof -
  have a: "main_call_args example_defaults example_flags ''model.joblib'' = example_args"
    by (simp add: main_call_args_def example_defaults_def example_flags_def example_args_def)
  have "main (example_env mnist_cls plain_meta) example_defaults example_flags
          (Some [''make_confidence_report_spsa.py'', ''model.joblib'']) []
        = make_confidence_report_spsa (example_env mnist_cls plain_meta) example_args []"
    by (simp add: main_def a)
  then show ?thesis
    by (simp add: example_run a)
       (simp add: example_flags_def example_args_def example_bounded_factory_def plain_meta_def)
qed

text \<open>
  Claim C3, amended by the condition on the metadata, which lines 105 to 108 read before
  the dispatch of lines 110 to 115. Let the run have loaded the model and built a dataset
  whose metadata \<^verbatim>\<open>center\<close> and \<^verbatim>\<open>max_val\<close> are numbers, with value range \<open>value_range\<close>. If the text of
  the factory class contains \<^verbatim>\<open>CIFAR\<close>, the attack parameter \<^verbatim>\<open>eps\<close> is
  \<open>8 / 255 * value_range\<close>; if it contains \<^verbatim>\<open>MNIST\<close> and not \<^verbatim>\<open>CIFAR\<close>, \<^verbatim>\<open>eps\<close> is
  \<open>3 / 10 * value_range\<close>; if it contains neither, the function raises
  \<^verbatim>\<open>NotImplementedError\<close> carrying that text, right after the dataset was built.
\<close>

theorem epsilon_by_dataset_family:
  assumes "load_and_build e a cs = (Inr (rp, m, d), cs1)"
    and "getitem (ds_kwargs d) ''center'' = Inr center"
    and "getitem (ds_kwargs d) ''max_val'' = Inr max_val"
    and "value_range_of max_val center = Inr value_range"
  shows "(str_contains ''CIFAR'' (cls (dataset_factory m)) \<longrightarrow>
            map_sum id eps (attack_configuration (dataset_factory m) d (nb_iter a))
              = Inr (8 / 255 * value_range))
       \<and> (\<not> str_contains ''CIFAR'' (cls (dataset_factory m)) \<and>
            str_contains ''MNIST'' (cls (dataset_factory m)) \<longrightarrow>
            map_sum id eps (attack_configuration (dataset_factory m) d (nb_iter a))
              = Inr (3 / 10 * value_range))
       \<and> (\<not> str_contains ''CIFAR'' (cls (dataset_factory m)) \<and>
            \<not> str_contains ''MNIST'' (cls (dataset_factory m)) \<longrightarrow>
            make_confidence_report_spsa e a cs
              = (Inl (NotImplementedError (cls (dataset_factory m))), cs1))"
proof -
  obtain mn where mn: "min_value_of center max_val = Inr mn"
    using assms(4) min_value_of_defined by blast
  have conf: "attack_configuration (dataset_factory m) d (nb_iter a) =
      (case base_eps_of (cls (dataset_factory m)) of
         Inl err \<Rightarrow> Inl err
       | Inr b \<Rightarrow> Inr \<lparr>eps = b * value_range, mc_nb_iter = nb_iter a,
                        clip_min = mn, clip_max = max_val\<rparr>)"
    using assms(2,3,4) mn by (simp add: attack_configuration_def and_then_def)
  show ?thesis
    using conf make_report_after_build [OF assms(1)]
    by (simp add: base_eps_of_def)
qed

text \<open>The statement at a concrete input, with its hypotheses discharged there.\<close>

theorem epsilon_by_dataset_family_witness:
  "value_range_of (PInt 255) (PBool True) = Inr 510
   \<and> map_sum id eps
        (attack_configuration (example_bounded_factory cifar_cls centered_meta)
           (example_dataset centered_meta) (PInt 40)) = Inr 16
   \<and> value_range_of (PFloat 1) (PBool False) = Inr 1
   \<and> map_sum id eps
        (attack_configuration (example_bounded_factory mnist_cls plain_meta)
           (example_dataset plain_meta) (PInt 40)) = Inr (3 / 10)
   \<and> make_confidence_report_spsa (example_env svhn_cls plain_meta) example_args []
       = (Inl (NotImplementedError svhn_cls),
          [Call_load ''model.joblib'', Call_factory (example_bounded_factory svhn_cls plain_meta)])"
proof -
  have v1: "value_range_of (PInt 255) (PBool True) = Inr 510"
    and v2: "value_range_of (PFloat 1) (PBool False) = Inr 1"
    by (simp_all add: value_range_of_def and_then_def)
  show ?thesis
    using v1 v2
      epsilon_by_dataset_family [OF example_build [of cifar_cls centered_meta] example_metadata(3,4) v1]
      epsilon_by_dataset_family [OF example_build [of mnist_cls plain_meta] example_metadata(1,2) v2]
      epsilon_by_dataset_family [OF example_build [of svhn_cls plain_meta] example_metadata(1,2) v2]
    by (simp add: example_factory_of_model example_classes example_arguments)
qed

text \<open>
  Without the condition on the metadata the third case fails. A dataset of a family that is
  neither \<^verbatim>\<open>CIFAR\<close> nor \<^verbatim>\<open>MNIST\<close> and whose keyword arguments have no \<^verbatim>\<open>center\<close> makes
  the function raise \<^verbatim>\<open>KeyError\<close> at line 105, before the dispatch is reached, and not
  \<^verbatim>\<open>NotImplementedError\<close>.
\<close>

theorem epsilon_by_dataset_family_counterexample:
  "\<not> str_contains ''CIFAR'' svhn_cls
   \<and> \<not> str_contains ''MNIST'' svhn_cls
   \<and> make_confidence_report_spsa (example_env svhn_cls []) example_args []
       = (Inl (KeyError ''center''),
          [Call_load ''model.joblib'', Call_factory (example_bounded_factory svhn_cls [])])
   \<and> fst (make_confidence_report_spsa (example_env svhn_cls []) example_args [])
       \<noteq> Inl (NotImplementedError svhn_cls)"
proof -
  have k: "attack_configuration (dataset_factory (example_bounded_model svhn_cls []))
             (example_dataset []) (nb_iter example_args) = Inl (KeyError ''center'')"
    by (simp add: attack_configuration_def and_then_def getitem_def example_dataset_def)
  show ?thesis
    by (simp add: make_report_after_build [OF example_build] k example_classes)
qed

text \<open>
  Claim C4. When the argument vector does not consist of exactly the script name and one
  positional argument, \<open>main\<close> raises \<^verbatim>\<open>ValueError\<close> carrying the vector, and calls
  nothing.
\<close>

theorem main_wrong_argument_count:
  assumes "length av \<noteq> 2"
  shows "main e defaults FLAGS (Some av) cs = (Inl (ValueError av), cs)"
proof (cases av)
  case Nil
  then show ?thesis by (simp add: main_def raise_def)
next
  case (Cons x xs)
  note outer = Cons
  show ?thesis
  proof (cases xs)
    case Nil
    with outer show ?thesis by (simp add: main_def raise_def)
  next
    case (Cons y ys)
    with outer assms obtain z zs where "ys = z # zs" by (cases ys) auto
    with outer Cons show ?thesis by (simp add: main_def raise_def)
  qed
qed

text \<open>The statement at a concrete input, with its hypotheses discharged there.\<close>

theorem main_wrong_argument_count_witness:
  "length [''make_confidence_report_spsa.py'', ''model.joblib'', ''extra.joblib''] \<noteq> 2
   \<and> main (example_env mnist_cls plain_meta) example_defaults example_flags
        (Some [''make_confidence_report_spsa.py'', ''model.joblib'', ''extra.joblib'']) []
       = (Inl (ValueError [''make_confidence_report_spsa.py'', ''model.joblib'',
                           ''extra.joblib'']), [])
   \<and> length [''make_confidence_report_spsa.py''] \<noteq> 2
   \<and> main (example_env mnist_cls plain_meta) example_defaults example_flags
        (Some [''make_confidence_report_spsa.py'']) []
       = (Inl (ValueError [''make_confidence_report_spsa.py'']), [])"
  using main_wrong_argument_count [of "[''make_confidence_report_spsa.py'', ''model.joblib'', ''extra.joblib'']"
               "example_env mnist_cls plain_meta" example_defaults example_flags "[]"]
        main_wrong_argument_count [of "[''make_confidence_report_spsa.py'']"
               "example_env mnist_cls plain_meta" example_defaults example_flags "[]"]
  by simp

text \<open>
  Claim C5. When no report path is given and the model path is \<open>stem\<close> followed by
  \<^verbatim>\<open>.joblib\<close>, the resolved report path is \<open>stem\<close> followed by \<^verbatim>\<open>_spsa_report.joblib\<close>;
  this is the path that every run getting past the construction of the dataset holds.
\<close>

theorem default_report_path:
  assumes "report_path a = None" and "filepath a = stem @ ''.joblib''"
  shows "resolve_report_path (filepath a) (report_path a) = Inr (stem @ ''_spsa_report.joblib'')
       \<and> (\<forall>e cs rp m d cs'. load_and_build e a cs = (Inr (rp, m, d), cs') \<longrightarrow>
            rp = stem @ ''_spsa_report.joblib'')"
proof -
  have "endswith (filepath a) ''.joblib''"
    using assms(2) by (auto simp: endswith_iff)
  moreover have "take (length (filepath a) - length ''.joblib'') (filepath a) = stem"
    using assms(2) by simp
  ultimately have r: "resolve_report_path (filepath a) (report_path a)
      = Inr (stem @ ''_spsa_report.joblib'')"
    using assms(1) by (simp add: resolve_report_path_def)
  show ?thesis
  proof (intro conjI allI impI)
    show "resolve_report_path (filepath a) (report_path a) = Inr (stem @ ''_spsa_report.joblib'')"
      by (rule r)
  next
    fix e cs rp m d cs'
    assume "load_and_build e a cs = (Inr (rp, m, d), cs')"
    then have "resolve_report_path (filepath a) (report_path a) = Inr rp"
      by (rule load_and_build_path)
    with r show "rp = stem @ ''_spsa_report.joblib''" by simp
  qed
qed

text \<open>The statement at a concrete input, with its hypotheses discharged there.\<close>

theorem default_report_path_witness:
  "report_path example_args = None
   \<and> filepath example_args = ''model'' @ ''.joblib''
   \<and> resolve_report_path (filepath example_args) (report_path example_args)
       = Inr ''model_spsa_report.joblib''
   \<and> load_and_build (example_env mnist_cls plain_meta) example_args []
       = (Inr (''model_spsa_report.joblib'', example_bounded_model mnist_cls plain_meta,
               example_dataset plain_meta),
          [Call_load ''model.joblib'', Call_factory (example_bounded_factory mnist_cls plain_meta)])"
  using default_report_path [of example_args "''model''"] example_build [of mnist_cls plain_meta]
  by (simp add: example_args_def)

text \<open>
  Claim C6. Let the run have loaded the model and built a dataset whose metadata
  \<^verbatim>\<open>center\<close> and \<^verbatim>\<open>max_val\<close> are the numbers \<open>c\<close> and \<open>mv\<close>, for a dataset family with
  base perturbation \<open>b\<close>. Then \<^verbatim>\<open>value_range\<close> is \<open>mv * (1 + c)\<close>, \<^verbatim>\<open>min_value\<close> is
  \<open>- c * mv\<close>, the attack parameters have \<^verbatim>\<open>clip_min = min_value\<close> and
  \<^verbatim>\<open>clip_max = max_val\<close>, and these are the parameters that the evaluation of the
  \<^verbatim>\<open>mc\<close> job receives, once the set was read and the clean job was evaluated.
\<close>

theorem value_range_and_clip_bounds:
  assumes "load_and_build e a cs = (Inr (rp, m, d), cs1)"
    and "getitem (ds_kwargs d) ''center'' = Inr center"
    and "getitem (ds_kwargs d) ''max_val'' = Inr max_val"
    and "as_number center = Inr c"
    and "as_number max_val = Inr mv"
    and "base_eps_of (cls (dataset_factory m)) = Inr b"
  shows "value_range_of max_val center = Inr (mv * (1 + c))
       \<and> min_value_of center max_val = Inr (- c * mv)
       \<and> attack_configuration (dataset_factory m) d (nb_iter a)
           = Inr \<lparr>eps = b * (mv * (1 + c)), mc_nb_iter = nb_iter a,
                  clip_min = - c * mv, clip_max = max_val\<rparr>
       \<and> (\<forall>x y r.
            get_set e d (which_set a) = Inr (x, y) \<and>
            correctness_and_confidence e m x y (batch_size a) (devices e) None None = Inr r
            \<longrightarrow>
            snd (make_confidence_report_spsa e a cs) =
              cs1 @ [Call_get_set d (which_set a),
                     Call_correctness_and_confidence (batch_size a) None None,
                     Call_correctness_and_confidence (batch_size a)
                       (Some (MaxConfidence m (SPSA m)))
                       (Some \<lparr>eps = b * (mv * (1 + c)), mc_nb_iter = nb_iter a,
                              clip_min = - c * mv, clip_max = max_val\<rparr>)])"
proof -
  have vr: "value_range_of max_val center = Inr (mv * (1 + c))"
    using assms(4,5) by (simp add: value_range_of_def and_then_def)
  have mn: "min_value_of center max_val = Inr (- c * mv)"
    using assms(4,5) by (simp add: min_value_of_def and_then_def)
  have conf: "attack_configuration (dataset_factory m) d (nb_iter a)
           = Inr \<lparr>eps = b * (mv * (1 + c)), mc_nb_iter = nb_iter a,
                  clip_min = - c * mv, clip_max = max_val\<rparr>"
    using assms(2,3,6) vr mn by (simp add: attack_configuration_def and_then_def)
  have calls: "snd (make_confidence_report_spsa e a cs) =
              cs1 @ [Call_get_set d (which_set a),
                     Call_correctness_and_confidence (batch_size a) None None,
                     Call_correctness_and_confidence (batch_size a)
                       (Some (MaxConfidence m (SPSA m)))
                       (Some \<lparr>eps = b * (mv * (1 + c)), mc_nb_iter = nb_iter a,
                              clip_min = - c * mv, clip_max = max_val\<rparr>)]"
    if "get_set e d (which_set a) = Inr (x, y)"
      and "correctness_and_confidence e m x y (batch_size a) (devices e) None None = Inr r"
    for x y r
    using that conf make_report_after_build [OF assms(1)] evaluate_jobs_eq [OF that(1)]
    by (simp add: call_save_eq Let_def split: sum.splits prod.splits)
  show ?thesis
    using vr mn conf calls by blast
qed

text \<open>The statement at a concrete input, with its hypotheses discharged there.\<close>

theorem value_range_and_clip_bounds_witness:
  "as_number (PBool True) = Inr 1 \<and> as_number (PInt 255) = Inr 255
   \<and> base_eps_of cifar_cls = Inr (8 / 255)
   \<and> value_range_of (PInt 255) (PBool True) = Inr 510
   \<and> min_value_of (PBool True) (PInt 255) = Inr (- 255)
   \<and> attack_configuration (example_bounded_factory cifar_cls centered_meta)
        (example_dataset centered_meta) (PInt 40)
       = Inr \<lparr>eps = 16, mc_nb_iter = PInt 40, clip_min = - 255, clip_max = PInt 255\<rparr>
   \<and> snd (make_confidence_report_spsa (example_env cifar_cls centered_meta) example_args [])
       = [Call_load ''model.joblib'',
          Call_factory (example_bounded_factory cifar_cls centered_meta),
          Call_get_set (example_dataset centered_meta) (PStr ''test''),
          Call_correctness_and_confidence (PInt 256) None None,
          Call_correctness_and_confidence (PInt 256)
            (Some (MaxConfidence (example_bounded_model cifar_cls centered_meta)
                     (SPSA (example_bounded_model cifar_cls centered_meta))))
            (Some \<lparr>eps = 16, mc_nb_iter = PInt 40, clip_min = - 255, clip_max = PInt 255\<rparr>)]"
proof -
  have n: "as_number (PBool True) = Inr 1" "as_number (PInt 255) = Inr 255"
    by simp_all
  have b: "base_eps_of (cls (dataset_factory (example_bounded_model cifar_cls centered_meta)))
      = Inr (8 / 255)"
    by (simp add: base_eps_of_def example_factory_of_model example_classes)
  show ?thesis
    using n b
      value_range_and_clip_bounds [OF example_build [of cifar_cls centered_meta] example_metadata(3,4) n b]
    by (simp add: example_factory_of_model example_arguments example_get_set
        example_evaluation)
qed

text \<open>
  Claim C7. When the evaluation routine keeps its contract and both jobs succeed on the
  examples \<open>x_data\<close>, the report has exactly the keys \<^verbatim>\<open>clean\<close> and \<^verbatim>\<open>mc\<close>, in this
  order, and in each entry the correctness array and the confidence array have the length
  of \<open>x_data\<close>.
\<close>

theorem report_keys_and_lengths:
  assumes "evaluation_contract e"
    and "get_set e d (which_set a) = Inr (x_data, y_data)"
    and "evaluate_jobs e a m d mcp cs = (Inr rep, cs')"
  shows "map fst rep = [''clean'', ''mc'']
       \<and> (\<forall>entry \<in> snd ` set rep.
            length (correctness entry) = length x_data \<and>
            length (confidence entry) = length x_data)"
proof -
  let ?bs = "batch_size a" and ?mc = "Some (MaxConfidence m (SPSA m))"
  from assms(3) evaluate_jobs_eq [OF assms(2), of m mcp cs]
  obtain co1 cf1 co2 cf2 where
    r1: "correctness_and_confidence e m x_data y_data ?bs (devices e) None None = Inr (co1, cf1)"
    and r2: "correctness_and_confidence e m x_data y_data ?bs (devices e) ?mc (Some mcp)
               = Inr (co2, cf2)"
    and rep: "rep = [(''clean'', \<lparr>correctness = co1, confidence = cf1\<rparr>),
                     (''mc'', \<lparr>correctness = co2, confidence = cf2\<rparr>)]"
    by (auto simp: Let_def split: sum.splits prod.splits)
  have "length co1 = length x_data \<and> length cf1 = length x_data"
    using assms(1) r1 unfolding evaluation_contract_def by blast
  moreover have "length co2 = length x_data \<and> length cf2 = length x_data"
    using assms(1) r2 unfolding evaluation_contract_def by blast
  ultimately show ?thesis by (simp add: rep)
qed

text \<open>The statement at a concrete input, with its hypotheses discharged there.\<close>

theorem report_keys_and_lengths_witness:
  "evaluation_contract (example_env mnist_cls plain_meta)
   \<and> get_set (example_env mnist_cls plain_meta) (example_dataset plain_meta)
        (which_set example_args) = Inr ([[0], [1], [0]], [[1, 0], [0, 1], [1, 0]])
   \<and> fst (evaluate_jobs (example_env mnist_cls plain_meta) example_args
        (example_bounded_model mnist_cls plain_meta) (example_dataset plain_meta)
        example_mc_params [])
       = Inr [(''clean'', \<lparr>correctness = [True, True, True],
                            confidence = [1 / 2, 1 / 2, 1 / 2]\<rparr>),
              (''mc'', \<lparr>correctness = [False, False, False],
                         confidence = [1 / 2, 1 / 2, 1 / 2]\<rparr>)]
   \<and> map fst [(''clean'', \<lparr>correctness = [True, True, True],
                            confidence = [1 / 2, 1 / 2, 1 / 2]\<rparr>),
              (''mc'', \<lparr>correctness = [False, False, False],
                         confidence = [1 / 2, 1 / 2, 1 / 2]\<rparr>)] = [''clean'', ''mc'']
   \<and> length [[0], [1], [0 :: real]] = 3"
proof -
  let ?rep = "[(''clean'', \<lparr>correctness = [True, True, True],
                            confidence = [1 / 2, 1 / 2, 1 / 2 :: real]\<rparr>),
              (''mc'', \<lparr>correctness = [False, False, False],
                         confidence = [1 / 2, 1 / 2, 1 / 2]\<rparr>)]"
  let ?cs = "[Call_get_set (example_dataset plain_meta) (which_set example_args),
       Call_correctness_and_confidence (batch_size example_args) None None,
       Call_correctness_and_confidence (batch_size example_args)
         (Some (MaxConfidence (example_bounded_model mnist_cls plain_meta)
                  (SPSA (example_bounded_model mnist_cls plain_meta))))
         (Some example_mc_params)]"
  have ev: "evaluate_jobs (example_env mnist_cls plain_meta) example_args
        (example_bounded_model mnist_cls plain_meta) (example_dataset plain_meta)
        example_mc_params [] = (Inr ?rep, ?cs)"
    by (simp add: evaluate_jobs_eq [OF example_get_set] example_evaluation Let_def)
  show ?thesis
    using report_keys_and_lengths [OF example_contract example_get_set ev] example_contract
    by (simp add: ev example_get_set)
qed

text \<open>
  Claim C8. With no report path given, a model path that does not end in \<^verbatim>\<open>.joblib\<close>
  makes the function raise \<^verbatim>\<open>AssertionError\<close> with the log of library calls unchanged,
  that is before the model is loaded, whatever the library would do; and a default report
  path is derived only for model paths ending in \<^verbatim>\<open>.joblib\<close>.
\<close>

theorem missing_joblib_suffix_asserts:
  assumes "report_path a = None"
  shows "(\<not> endswith (filepath a) ''.joblib'' \<longrightarrow>
            make_confidence_report_spsa e a cs = (Inl AssertionError, cs))
       \<and> (\<forall>p. resolve_report_path (filepath a) (report_path a) = Inr p \<longrightarrow>
            endswith (filepath a) ''.joblib'')"
proof (intro conjI impI allI)
  assume "\<not> endswith (filepath a) ''.joblib''"
  with assms have "resolve_report_path (filepath a) (report_path a) = Inl AssertionError"
    by (simp add: resolve_report_path_def)
  then have "load_and_build e a cs = (Inl AssertionError, cs)"
    by (rule load_and_build_assert)
  then show "make_confidence_report_spsa e a cs = (Inl AssertionError, cs)"
    by (simp add: make_confidence_report_spsa_def run_bind_Inl)
next
  fix p
  assume "resolve_report_path (filepath a) (report_path a) = Inr p"
  with assms show "endswith (filepath a) ''.joblib''"
    by (simp add: resolve_report_path_def split: if_splits)
qed

text \<open>The statement at a concrete input, with its hypotheses discharged there.\<close>

theorem missing_joblib_suffix_asserts_witness:
  "report_path (example_args\<lparr>filepath := ''model.pkl''\<rparr>) = None
   \<and> \<not> endswith (filepath (example_args\<lparr>filepath := ''model.pkl''\<rparr>)) ''.joblib''
   \<and> make_confidence_report_spsa (example_env mnist_cls plain_meta)
         (example_args\<lparr>filepath := ''model.pkl''\<rparr>) []
       = (Inl AssertionError, [])"
  using missing_joblib_suffix_asserts [of "example_args\<lparr>filepath := ''model.pkl''\<rparr>" "example_env mnist_cls plain_meta" "[]"]
  by (simp add: example_args_def endswith_def)

text \<open>
  Claim C9. For a class text that contains both \<^verbatim>\<open>CIFAR\<close> and \<^verbatim>\<open>MNIST\<close>, the base
  perturbation is 8/255, the value of the first branch, and not 3/10.
\<close>

theorem cifar_checked_before_mnist:
  assumes "str_contains ''CIFAR'' c" and "str_contains ''MNIST'' c"
  shows "base_eps_of c = Inr (8 / 255) \<and> base_eps_of c \<noteq> Inr (3 / 10)"
  using assms by (simp add: base_eps_of_def)

text \<open>The statement at a concrete input, with its hypotheses discharged there.\<close>

theorem cifar_checked_before_mnist_witness:
  "str_contains ''CIFAR'' mixed_cls \<and> str_contains ''MNIST'' mixed_cls
   \<and> base_eps_of mixed_cls = Inr (8 / 255) \<and> base_eps_of mixed_cls \<noteq> Inr (3 / 10)"
  using example_classes(6,7) cifar_checked_before_mnist [OF example_classes(7) example_classes(6)] by simp

text \<open>
  Claim C10. Once the report path is resolved and a model with parameters is loaded, the
  factory \<open>f\<close> that the dataset is constructed from holds the four given bounds under
  \<^verbatim>\<open>train_start\<close>, \<^verbatim>\<open>train_end\<close>, \<^verbatim>\<open>test_start\<close> and \<^verbatim>\<open>test_end\<close>; every other keyword
  argument and the class are those of the loaded model's factory; and the construction
  of the dataset from \<open>f\<close> is the call that follows the loading.
\<close>

theorem factory_bounds_overwritten:
  assumes "resolve_report_path (filepath a) (report_path a) = Inr rp"
    and "load e (filepath a) = Inr m"
    and "get_params m \<noteq> []"
    and "f = set_bounds (dataset_factory m) a"
  shows "map_of (kwargs f) ''train_start'' = Some (train_start a)
       \<and> map_of (kwargs f) ''train_end'' = Some (train_end a)
       \<and> map_of (kwargs f) ''test_start'' = Some (test_start a)
       \<and> map_of (kwargs f) ''test_end'' = Some (test_end a)
       \<and> (\<forall>k. k \<notin> {''train_start'', ''train_end'', ''test_start'', ''test_end''} \<longrightarrow>
             map_of (kwargs f) k = map_of (kwargs (dataset_factory m)) k)
       \<and> cls f = cls (dataset_factory m)
       \<and> load_and_build e a cs =
           (map_sum id (\<lambda>d. (rp, m\<lparr>dataset_factory := f\<rparr>, d)) (construct e f),
            cs @ [Call_load (filepath a), Call_factory f])"
proof -
  have mo: "map_of (kwargs f) =
     (map_of (kwargs (dataset_factory m)))(''train_start'' \<mapsto> train_start a,
        ''train_end'' \<mapsto> train_end a, ''test_start'' \<mapsto> test_start a,
        ''test_end'' \<mapsto> test_end a)"
    using assms(4) by (simp add: set_bounds_map_of)
  have c: "cls f = cls (dataset_factory m)"
    using assms(4) by (simp add: set_bounds_def)
  have lb: "load_and_build e a cs =
           (map_sum id (\<lambda>d. (rp, m\<lparr>dataset_factory := f\<rparr>, d)) (construct e f),
            cs @ [Call_load (filepath a), Call_factory f])"
    using assms
    by (simp add: load_and_build_def run_bind_def pure_step_def library_call_def
        py_assert_def returns_def Let_def split: sum.splits)
  show ?thesis
    using c lb by (simp add: mo)
qed

text \<open>The statement at a concrete input, with its hypotheses discharged there.\<close>

theorem factory_bounds_overwritten_witness:
  "resolve_report_path (filepath example_args) (report_path example_args)
     = Inr ''model_spsa_report.joblib''
   \<and> load (example_env mnist_cls plain_meta) (filepath example_args)
       = Inr (example_model mnist_cls plain_meta)
   \<and> get_params (example_model mnist_cls plain_meta) \<noteq> []
   \<and> example_bounded_factory mnist_cls plain_meta
       = set_bounds (dataset_factory (example_model mnist_cls plain_meta)) example_args
   \<and> map_of (kwargs (example_factory mnist_cls plain_meta)) ''train_start'' = Some (PInt 10)
   \<and> map_of (kwargs (example_bounded_factory mnist_cls plain_meta)) ''train_start''
       = Some (PInt 0)
   \<and> map_of (kwargs (example_bounded_factory mnist_cls plain_meta)) ''test_end''
       = Some (PInt 3)
   \<and> map_of (kwargs (example_bounded_factory mnist_cls plain_meta)) ''max_val''
       = map_of (kwargs (example_factory mnist_cls plain_meta)) ''max_val''
   \<and> load_and_build (example_env mnist_cls plain_meta) example_args []
       = (Inr (''model_spsa_report.joblib'', example_bounded_model mnist_cls plain_meta,
               example_dataset plain_meta),
          [Call_load ''model.joblib'', Call_factory (example_bounded_factory mnist_cls plain_meta)])"
proof -
  have r: "resolve_report_path (filepath example_args) (report_path example_args)
     = Inr ''model_spsa_report.joblib''"
    by (simp add: resolve_report_path_def endswith_def example_args_def)
  have l: "load (example_env mnist_cls plain_meta) (filepath example_args)
       = Inr (example_model mnist_cls plain_meta)"
    by (simp add: example_env_def)
  have p: "get_params (example_model mnist_cls plain_meta) \<noteq> []"
    by (simp add: example_model_def)
  have f: "example_bounded_factory mnist_cls plain_meta
       = set_bounds (dataset_factory (example_model mnist_cls plain_meta)) example_args"
    by (simp add: set_bounds_def example_defs)
  have rest: "map_of (kwargs (example_factory mnist_cls plain_meta)) ''train_start''
       = Some (PInt 10)
   \<and> map_of (kwargs (example_bounded_factory mnist_cls plain_meta)) ''train_start''
       = Some (PInt 0)
   \<and> map_of (kwargs (example_bounded_factory mnist_cls plain_meta)) ''test_end''
       = Some (PInt 3)
   \<and> map_of (kwargs (example_bounded_factory mnist_cls plain_meta)) ''max_val''
       = map_of (kwargs (example_factory mnist_cls plain_meta)) ''max_val''
   \<and> load_and_build (example_env mnist_cls plain_meta) example_args []
       = (Inr (''model_spsa_report.joblib'', example_bounded_model mnist_cls plain_meta,
               example_dataset plain_meta),
          [Call_load ''model.joblib'', Call_factory (example_bounded_factory mnist_cls plain_meta)])"
    using factory_bounds_overwritten [OF r l p f, of "[]"]
    by (simp add: example_defs plain_meta_def)
  show ?thesis
    using r l p f rest by blast
qed

end
